theory Spec2Isabelle
  imports Complex_Main
begin

section \<open>Python values and exceptions\<close>

text \<open>
  The program (\<^verbatim>\<open>app.py\<close>) is a Streamlit script working on values decoded from a JSON
  file and on an XML tree. Decoded JSON is duck-typed in the source, so it is modelled by
  one datatype of Python values. Numbers are exact reals: the binary representation error
  of Python floats is not part of the model. A dictionary is the list of its items; a
  lookup takes the last binding of a key, as \<^verbatim>\<open>json.load\<close> keeps the last duplicate.
\<close>

datatype py_error =
    FileNotFoundError | JSONDecodeError | ParseError | KeyError | TypeError
  | ValueError | AttributeError | ZeroDivisionError | StopIteration

datatype pyval =
    PNone | PBool bool | PNum real | PStr string
  | PList "pyval list" | PDict "(string \<times> pyval) list"

text \<open>Sequencing of computations that may raise: the first exception is the result.\<close>

definition bind_e :: "'e + 'a \<Rightarrow> ('a \<Rightarrow> 'e + 'b) \<Rightarrow> 'e + 'b" where
  "bind_e m f = (case m of Inl e \<Rightarrow> Inl e | Inr v \<Rightarrow> f v)"

text \<open>\<^verbatim>\<open>v[k]\<close> for a string key \<open>k\<close>.\<close>

fun getitem :: "pyval \<Rightarrow> string \<Rightarrow> py_error + pyval" where
  "getitem (PDict kv) k = (case map_of (rev kv) k of None \<Rightarrow> Inl KeyError | Some v \<Rightarrow> Inr v)"
| "getitem _ k = Inl TypeError"

text \<open>Numbers for arithmetic: \<^verbatim>\<open>bool\<close> is a subtype of \<^verbatim>\<open>int\<close> in Python.\<close>

fun as_num :: "pyval \<Rightarrow> real option" where
  "as_num (PNum r) = Some r"
| "as_num (PBool b) = Some (if b then 1 else 0)"
| "as_num _ = None"

text \<open>\<^verbatim>\<open>a + b\<close>: numbers add, strings and lists concatenate, anything else raises.\<close>

definition py_add :: "pyval \<Rightarrow> pyval \<Rightarrow> py_error + pyval" where
  "py_add a b =
     (case (as_num a, as_num b) of
        (Some x, Some y) \<Rightarrow> Inr (PNum (x + y))
      | _ \<Rightarrow>
        (case (a, b) of
           (PStr s, PStr t) \<Rightarrow> Inr (PStr (s @ t))
         | (PList s, PList t) \<Rightarrow> Inr (PList (s @ t))
         | _ \<Rightarrow> Inl TypeError))"

text \<open>\<^verbatim>\<open>a / d\<close> for a numeric literal \<open>d\<close>.\<close>

definition py_truediv :: "pyval \<Rightarrow> real \<Rightarrow> py_error + real" where
  "py_truediv a d =
     (case as_num a of
        None \<Rightarrow> Inl TypeError
      | Some x \<Rightarrow> if d = 0 then Inl ZeroDivisionError else Inr (x / d))"

text \<open>
  \<^verbatim>\<open>round(x, nd)\<close> on a float: the nearest multiple of \<open>10\<^sup>-\<^sup>n\<^sup>d\<close>, a tie going to the
  even multiple.
\<close>

definition round_half_even :: "real \<Rightarrow> int" where
  "round_half_even x =
     (let f = \<lfloor>x\<rfloor>; d = x - of_int f
      in if d < 1 / 2 then f else if 1 / 2 < d then f + 1 else if even f then f else f + 1)"

definition py_round :: "real \<Rightarrow> nat \<Rightarrow> real" where
  "py_round x nd = of_int (round_half_even (x * 10 ^ nd)) / 10 ^ nd"


section \<open>CVI logic\<close>

text \<open>The subscript chain \<^verbatim>\<open>l[k]["score"]\<close>.\<close>

definition score_of :: "pyval \<Rightarrow> string \<Rightarrow> py_error + pyval" where
  "score_of l k = bind_e (getitem l k) (\<lambda>s. getitem s ''score'')"

text \<open>
  \<^verbatim>\<open>compute_cvi(l)\<close>, in Python's evaluation order: the first two scores are read and
  added before the third is read.
\<close>

definition compute_cvi :: "pyval \<Rightarrow> py_error + real" where
  "compute_cvi l =
     bind_e (score_of l ''geomorphology'') (\<lambda>g.
     bind_e (score_of l ''natural_buffers'') (\<lambda>n.
     bind_e (py_add g n) (\<lambda>gn.
     bind_e (score_of l ''engineering_structures'') (\<lambda>e.
     bind_e (py_add gn e) (\<lambda>s.
     bind_e (py_truediv s 3) (\<lambda>q.
     Inr (py_round q 2)))))))"

definition get_color :: "real \<Rightarrow> string" where
  "get_color cvi =
     (if cvi \<le> 1.0 then ''red''
      else if cvi \<le> 2.0 then ''orange''
      else if cvi \<le> 3.0 then ''yellow''
      else if cvi \<le> 4.0 then ''green''
      else ''blue'')"


section \<open>Strings\<close>

text \<open>
  \<^verbatim>\<open>str.strip()\<close>, \<^verbatim>\<open>str.split()\<close> and \<^verbatim>\<open>str.split(sep)\<close> on byte strings: the white
  space is the ASCII white space of Python (codes 9 to 13 and 28 to 32). Splitting on white
  space yields no empty word; splitting on a separator yields one word more than there
  are separators, empty words included.
\<close>

definition is_space :: "char \<Rightarrow> bool" where
  "is_space c = (let n = (of_char c :: nat) in (9 \<le> n \<and> n \<le> 13) \<or> (28 \<le> n \<and> n \<le> 32))"

definition strip :: "string \<Rightarrow> string" where
  "strip s = rev (dropWhile is_space (rev (dropWhile is_space s)))"

fun split_ws_from :: "string \<Rightarrow> string \<Rightarrow> string list" where
  "split_ws_from cur [] = (if cur = [] then [] else [cur])"
| "split_ws_from cur (c # cs) =
     (if is_space c then (if cur = [] then split_ws_from [] cs else cur # split_ws_from [] cs)
      else split_ws_from (cur @ [c]) cs)"

definition split_ws :: "string \<Rightarrow> string list" where
  "split_ws s = split_ws_from [] s"

fun split_on_from :: "string \<Rightarrow> char \<Rightarrow> string \<Rightarrow> string list" where
  "split_on_from cur sep [] = [cur]"
| "split_on_from cur sep (c # cs) =
     (if c = sep then cur # split_on_from [] sep cs else split_on_from (cur @ [c]) sep cs)"

definition split_on :: "char \<Rightarrow> string \<Rightarrow> string list" where
  "split_on sep s = split_on_from [] sep s"

text \<open>
  \<^verbatim>\<open>float(s)\<close> on decimal literals: an optional sign, digits with an optional point (at
  least one digit), an optional exponent; \<open>None\<close> stands for \<^verbatim>\<open>ValueError\<close>. The model
  leaves out what has no real value or is not a plain literal (\<^verbatim>\<open>inf\<close>, \<^verbatim>\<open>nan\<close>,
  digits grouped by underscores).
\<close>

definition is_digit :: "char \<Rightarrow> bool" where
  "is_digit c = (let n = (of_char c :: nat) in 48 \<le> n \<and> n \<le> 57)"

definition digits_val :: "string \<Rightarrow> nat" where
  "digits_val ds = foldl (\<lambda>a c. 10 * a + (of_char c - 48)) 0 ds"

definition parse_mantissa :: "string \<Rightarrow> real option" where
  "parse_mantissa s =
     (let ip = takeWhile is_digit s
      in case dropWhile is_digit s of
           [] \<Rightarrow> if ip = [] then None else Some (real (digits_val ip))
         | c # fs \<Rightarrow>
             if c = CHR ''.'' \<and> list_all is_digit fs \<and> (ip \<noteq> [] \<or> fs \<noteq> [])
             then Some (real (digits_val ip) + real (digits_val fs) / 10 ^ length fs)
             else None)"

definition parse_exponent :: "string \<Rightarrow> int option" where
  "parse_exponent s =
     (let (neg, ds) = (case s of
                         [] \<Rightarrow> (False, [])
                       | c # cs \<Rightarrow> if c = CHR ''-'' then (True, cs)
                                  else if c = CHR ''+'' then (False, cs) else (False, s))
      in if ds \<noteq> [] \<and> list_all is_digit ds
         then Some (if neg then - int (digits_val ds) else int (digits_val ds))
         else None)"

definition py_float :: "string \<Rightarrow> real option" where
  "py_float s =
     (let t = strip s;
          (sg, body) = (case t of
                           [] \<Rightarrow> (1, [])
                         | c # cs \<Rightarrow> if c = CHR ''-'' then (- 1, cs)
                                    else if c = CHR ''+'' then (1, cs) else (1, t));
          is_e = (\<lambda>c. c = CHR ''e'' \<or> c = CHR ''E'')
      in case parse_mantissa (takeWhile (\<lambda>c. \<not> is_e c) body) of
           None \<Rightarrow> None
         | Some m \<Rightarrow>
             (case dropWhile (\<lambda>c. \<not> is_e c) body of
                [] \<Rightarrow> Some (sg * m)
              | _ # ex \<Rightarrow>
                  (case parse_exponent ex of
                     None \<Rightarrow> None
                   | Some k \<Rightarrow> Some (if 0 \<le> k then sg * m * 10 ^ nat k
                                      else sg * m / 10 ^ nat (- k)))))"


section \<open>Load KML\<close>

text \<open>
  An element of the tree that \<^verbatim>\<open>ElementTree\<close> builds: its qualified tag, its text
  (\<^verbatim>\<open>None\<close> for an element with no text) and its children in document order. A file
  as the parser meets it is missing, malformed, or parsed.
\<close>

datatype xml = Element (el_tag: string) (el_text: "string option") (el_children: "xml list")

datatype 'a source = Missing | Malformed | Parsed 'a

fun descendants :: "xml \<Rightarrow> xml list" where
  "descendants (Element t x cs) = concat (map (\<lambda>c. c # descendants c) cs)"

definition kml_tag :: "string \<Rightarrow> string" where
  "kml_tag n = ''{http://www.opengis.net/kml/2.2}'' @ n"

text \<open>\<^verbatim>\<open>e.find("kml:t", ns)\<close>, \<^verbatim>\<open>e.find(".//kml:t", ns)\<close> and \<^verbatim>\<open>e.findall(".//kml:t", ns)\<close>.\<close>

definition find_child :: "string \<Rightarrow> xml \<Rightarrow> xml option" where
  "find_child t e = List.find (\<lambda>c. el_tag c = kml_tag t) (el_children e)"

definition find_desc :: "string \<Rightarrow> xml \<Rightarrow> xml option" where
  "find_desc t e = List.find (\<lambda>c. el_tag c = kml_tag t) (descendants e)"

definition findall_desc :: "string \<Rightarrow> xml \<Rightarrow> xml list" where
  "findall_desc t e = filter (\<lambda>c. el_tag c = kml_tag t) (descendants e)"

text \<open>
  The dictionary \<^verbatim>\<open>polygons\<close>: its keys are the texts of the name elements (a string or
  \<^verbatim>\<open>None\<close>), its values the lists of \<^verbatim>\<open>[lat, lon]\<close>.
\<close>

type_synonym polygons = "string option \<rightharpoonup> (real \<times> real) list"

text \<open>
  The inner loop. \<^verbatim>\<open>lon, lat, _ = map(float, c.split(","))\<close> raises \<^verbatim>\<open>ValueError\<close>
  unless there are exactly three components and each is a float literal.
\<close>

fun coords_loop :: "string list \<Rightarrow> (real \<times> real) list \<Rightarrow> py_error + (real \<times> real) list" where
  "coords_loop [] coords = Inr coords"
| "coords_loop (c # cs) coords =
     (case map py_float (split_on CHR '','' c) of
        [Some lon, Some lat, Some alt] \<Rightarrow> coords_loop cs (coords @ [(lat, lon)])
      | _ \<Rightarrow> Inl ValueError)"

text \<open>The outer loop: \<^verbatim>\<open>.text\<close> of a missing element and \<^verbatim>\<open>.strip()\<close> of no text raise.\<close>

fun placemark_loop :: "xml list \<Rightarrow> polygons \<Rightarrow> py_error + polygons" where
  "placemark_loop [] polygons = Inr polygons"
| "placemark_loop (p # ps) polygons =
     (case find_child ''name'' p of
        None \<Rightarrow> Inl AttributeError
      | Some n \<Rightarrow>
          (case find_desc ''coordinates'' p of
             None \<Rightarrow> Inl AttributeError
           | Some ce \<Rightarrow>
               (case el_text ce of
                  None \<Rightarrow> Inl AttributeError
                | Some txt \<Rightarrow>
                    (case coords_loop (split_ws (strip txt)) [] of
                       Inl e \<Rightarrow> Inl e
                     | Inr coords \<Rightarrow> placemark_loop ps (polygons(el_text n \<mapsto> coords))))))"

definition load_kml :: "xml source \<Rightarrow> py_error + polygons" where
  "load_kml kml_file =
     (case kml_file of
        Missing \<Rightarrow> Inl FileNotFoundError
      | Malformed \<Rightarrow> Inl ParseError
      | Parsed tree \<Rightarrow> placemark_loop (findall_desc ''Placemark'' tree) Map.empty)"


section \<open>Load data\<close>

text \<open>
  \<^verbatim>\<open>json.load(f)["landmarks"]\<close> under \<^verbatim>\<open>open("landmarks.json")\<close>: nothing is checked
  beyond the presence of the key.
\<close>

definition load_landmarks :: "pyval source \<Rightarrow> py_error + pyval" where
  "load_landmarks f =
     (case f of
        Missing \<Rightarrow> Inl FileNotFoundError
      | Malformed \<Rightarrow> Inl JSONDecodeError
      | Parsed doc \<Rightarrow> getitem doc ''landmarks'')"


section \<open>Iteration, equality, truth\<close>

text \<open>The keys of a dictionary, each once, in the order of first insertion.\<close>

definition dict_keys :: "(string \<times> pyval) list \<Rightarrow> string list" where
  "dict_keys kv = rev (remdups (rev (map fst kv)))"

text \<open>\<^verbatim>\<open>iter(v)\<close>: what a \<^verbatim>\<open>for\<close> loop over \<open>v\<close> visits.\<close>

fun py_iter :: "pyval \<Rightarrow> py_error + pyval list" where
  "py_iter (PList xs) = Inr xs"
| "py_iter (PStr s) = Inr (map (\<lambda>c. PStr [c]) s)"
| "py_iter (PDict kv) = Inr (map PStr (dict_keys kv))"
| "py_iter _ = Inl TypeError"

text \<open>
  \<^verbatim>\<open>a == b\<close>: numbers and booleans compare by value, everything else by structure
  (exact for \<^verbatim>\<open>None\<close> and strings, which is what names are).
\<close>

definition py_eq :: "pyval \<Rightarrow> pyval \<Rightarrow> bool" where
  "py_eq a b = (case (as_num a, as_num b) of (Some x, Some y) \<Rightarrow> x = y | _ \<Rightarrow> a = b)"

fun py_truthy :: "pyval \<Rightarrow> bool" where
  "py_truthy PNone = False"
| "py_truthy (PBool b) = b"
| "py_truthy (PNum r) = (r \<noteq> 0)"
| "py_truthy (PStr s) = (s \<noteq> [])"
| "py_truthy (PList xs) = (xs \<noteq> [])"
| "py_truthy (PDict kv) = (kv \<noteq> [])"

text \<open>\<^verbatim>\<open>d.get(k, default)\<close>: only a dictionary has the method.\<close>

fun dict_get :: "pyval \<Rightarrow> string \<Rightarrow> pyval \<Rightarrow> py_error + pyval" where
  "dict_get (PDict kv) k d = Inr (case map_of (rev kv) k of None \<Rightarrow> d | Some v \<Rightarrow> v)"
| "dict_get _ k d = Inl AttributeError"

text \<open>\<^verbatim>\<open>kml_polygons[k]\<close>: lists and dictionaries are unhashable, other absent keys are missing.\<close>

fun lookup_polygon :: "polygons \<Rightarrow> pyval \<Rightarrow> py_error + (real \<times> real) list" where
  "lookup_polygon polys (PStr s) =
     (case polys (Some s) of None \<Rightarrow> Inl KeyError | Some cs \<Rightarrow> Inr cs)"
| "lookup_polygon polys PNone =
     (case polys None of None \<Rightarrow> Inl KeyError | Some cs \<Rightarrow> Inr cs)"
| "lookup_polygon polys (PList xs) = Inl TypeError"
| "lookup_polygon polys (PDict kv) = Inl TypeError"
| "lookup_polygon polys _ = Inl KeyError"

text \<open>\<^verbatim>\<open>str.capitalize()\<close> on ASCII.\<close>

definition to_upper :: "char \<Rightarrow> char" where
  "to_upper c = (let n = (of_char c :: nat) in if 97 \<le> n \<and> n \<le> 122 then char_of (n - 32) else c)"

definition to_lower :: "char \<Rightarrow> char" where
  "to_lower c = (let n = (of_char c :: nat) in if 65 \<le> n \<and> n \<le> 90 then char_of (n + 32) else c)"

definition capitalize :: "string \<Rightarrow> string" where
  "capitalize s = (case s of [] \<Rightarrow> [] | c # cs \<Rightarrow> to_upper c # map to_lower cs)"


section \<open>Sidebar and map center logic\<close>

text \<open>The list comprehension \<^verbatim>\<open>[l["name"] for l in landmarks]\<close>.\<close>

fun names_loop :: "pyval list \<Rightarrow> py_error + pyval list" where
  "names_loop [] = Inr []"
| "names_loop (l # ls) =
     bind_e (getitem l ''name'') (\<lambda>n.
     bind_e (names_loop ls) (\<lambda>ns.
     Inr (n # ns)))"

text \<open>\<^verbatim>\<open>next(l for l in landmarks if l["name"] == selected_name)\<close>.\<close>

fun find_landmark :: "pyval list \<Rightarrow> pyval \<Rightarrow> py_error + pyval" where
  "find_landmark [] selected_name = Inl StopIteration"
| "find_landmark (l # ls) selected_name =
     bind_e (getitem l ''name'') (\<lambda>n.
     if py_eq n selected_name then Inr l else find_landmark ls selected_name)"

text \<open>
  The variables set by the branch on \<^verbatim>\<open>selected_name is None\<close>. The value \<^verbatim>\<open>None\<close> of
  the last three is \<open>None\<close> here.
\<close>

record view =
  map_center :: "real \<times> real"
  zoom_level :: real
  selected_landmark :: "pyval option"
  selected_cvi :: "real option"
  selected_color :: "string option"

definition select_view :: "pyval list \<Rightarrow> polygons \<Rightarrow> pyval \<Rightarrow> py_error + view" where
  "select_view landmarks kml_polygons selected_name =
     (if selected_name = PNone
      then Inr \<lparr>map_center = (11.230, 125.003), zoom_level = 13.5,
                selected_landmark = None, selected_cvi = None, selected_color = None\<rparr>
      else
        bind_e (find_landmark landmarks selected_name) (\<lambda>l.
        bind_e (compute_cvi l) (\<lambda>cvi.
        bind_e (lookup_polygon kml_polygons selected_name) (\<lambda>selected_coords.
        if length selected_coords = 0 then Inl ZeroDivisionError
        else Inr \<lparr>map_center =
                    (sum_list (map fst selected_coords) / real (length selected_coords),
                     sum_list (map snd selected_coords) / real (length selected_coords)),
                  zoom_level = 15,
                  selected_landmark = Some l, selected_cvi = Some cvi,
                  selected_color = Some (get_color cvi)\<rparr>))))"


section \<open>Map\<close>

record polygon =
  locations :: "(real \<times> real) list"
  fill :: bool
  fill_color :: string
  fill_opacity :: real
  color :: string
  weight :: nat

text \<open>The map object: its arguments, the full-screen control, the polygons added to it.\<close>

record folium_map =
  location :: "real \<times> real"
  zoom_start :: real
  fullscreen :: bool
  layers :: "polygon list"

text \<open>
  The loop \<^verbatim>\<open>for l in landmarks\<close> that adds one polygon per landmark. The source reads
  \<^verbatim>\<open>l["name"]\<close> twice; the second read cannot fail where the first did not.
\<close>

fun polygon_loop :: "pyval list \<Rightarrow> polygons \<Rightarrow> pyval \<Rightarrow> folium_map \<Rightarrow> py_error + folium_map" where
  "polygon_loop [] kml_polygons selected_name m = Inr m"
| "polygon_loop (l # ls) kml_polygons selected_name m =
     bind_e (compute_cvi l) (\<lambda>cvi.
     bind_e (getitem l ''name'') (\<lambda>n.
     bind_e (lookup_polygon kml_polygons n) (\<lambda>coords.
     polygon_loop ls kml_polygons selected_name
       (m\<lparr>layers := layers m @
           [\<lparr>locations = coords, fill = True, fill_color = get_color cvi,
             fill_opacity = 0.6, color = ''black'',
             weight = (if py_eq n selected_name then 4 else 1)\<rparr>]\<rparr>))))"


section \<open>Main UI\<close>

text \<open>
  What the script sends to the page, in order. The texts are the source's with their
  non-ASCII characters left out or replaced, a text of several lines cut to its heading;
  values formatted into a text are kept as values. \<open>StImage c p cap\<close> is an image
  \<open>p\<close> with caption \<open>cap\<close> placed in column \<open>c\<close> of the last \<open>Columns\<close>; \<^verbatim>\<open>st.image\<close>
  is taken to accept any value.
\<close>

datatype st_event =
    PageConfig string
  | SidebarTitle string
  | SidebarRadio string "pyval list"
  | Title string
  | Columns nat
  | Folium folium_map
  | Subheader pyval
  | Info string
  | Warning string
  | Markdown string
  | MarkdownIndex "real option" string
  | MarkdownBreakdown "(pyval \<times> pyval) list"
  | StImage nat pyval pyval

text \<open>The subscript chain \<^verbatim>\<open>l[k]["description"]\<close>.\<close>

definition description_of :: "pyval \<Rightarrow> string \<Rightarrow> py_error + pyval" where
  "description_of l k = bind_e (getitem l k) (\<lambda>s. getitem s ''description'')"

text \<open>The six values formatted into the scoring breakdown, read in the order of the text.\<close>

definition breakdown :: "pyval \<Rightarrow> py_error + (pyval \<times> pyval) list" where
  "breakdown l =
     bind_e (score_of l ''geomorphology'') (\<lambda>s1.
     bind_e (description_of l ''geomorphology'') (\<lambda>d1.
     bind_e (score_of l ''natural_buffers'') (\<lambda>s2.
     bind_e (description_of l ''natural_buffers'') (\<lambda>d2.
     bind_e (score_of l ''engineering_structures'') (\<lambda>s3.
     bind_e (description_of l ''engineering_structures'') (\<lambda>d3.
     Inr [(s1, d1), (s2, d2), (s3, d3)]))))))"

text \<open>
  The right-hand column. A phase of the script yields the events it sent and the exception
  that ended it, if any.
\<close>

definition detail_panel :: "pyval \<Rightarrow> view \<Rightarrow> st_event list \<times> py_error option" where
  "detail_panel selected_name v =
     (if selected_name = PNone
      then ([Subheader (PStr ''No landmark selected''),
             Info (''Select a coastal landmark from the list to view its '' @
                   ''Coastal Vulnerability Index (CVI) and assessment details.'')], None)
      else
        (case selected_color v of
           None \<Rightarrow> ([Subheader selected_name], Some AttributeError)
         | Some c \<Rightarrow>
             (let out = [Subheader selected_name, MarkdownIndex (selected_cvi v) (capitalize c),
                         Markdown ''### Scoring Breakdown'']
              in case breakdown (case selected_landmark v of None \<Rightarrow> PNone | Some l \<Rightarrow> l) of
                   Inl e \<Rightarrow> (out, Some e)
                 | Inr b \<Rightarrow> (out @ [MarkdownBreakdown b], None))))"


section \<open>Image showcase\<close>

text \<open>The loop over \<^verbatim>\<open>enumerate(images)\<close>, from index \<open>idx\<close> on.\<close>

fun image_loop :: "nat \<Rightarrow> pyval list \<Rightarrow> pyval \<Rightarrow> st_event list" where
  "image_loop idx [] selected_name = []"
| "image_loop idx (img_path # rest) selected_name =
     StImage (idx mod 3) img_path selected_name # image_loop (Suc idx) rest selected_name"

definition gallery :: "pyval \<Rightarrow> view \<Rightarrow> st_event list \<times> py_error option" where
  "gallery selected_name v =
     (if selected_name = PNone
      then ([Info ''Select a landmark to view related field images.''], None)
      else
        (case dict_get (case selected_landmark v of None \<Rightarrow> PNone | Some l \<Rightarrow> l)
                ''images'' (PList []) of
           Inl e \<Rightarrow> ([], Some e)
         | Inr images \<Rightarrow>
             if \<not> py_truthy images
             then ([Warning ''No images available for this landmark.''], None)
             else (case py_iter images of
                     Inl e \<Rightarrow> ([Columns 3], Some e)
                   | Inr imgs \<Rightarrow> (Columns 3 # image_loop 0 imgs selected_name, None))))"


section \<open>The script\<close>

text \<open>
  One run of \<^verbatim>\<open>app.py\<close>, top to bottom, on the two files and on the choice that the radio
  returns (\<^verbatim>\<open>None\<close> or one of its options): the events sent and the exception that ended
  the run, if any.
\<close>

definition run :: "pyval source \<Rightarrow> xml source \<Rightarrow> pyval \<Rightarrow> st_event list \<times> py_error option" where
  "run landmarks_file kml_file selected_name =
     (let out0 = [PageConfig ''Tacloban City CVA'']
      in case load_landmarks landmarks_file of Inl e \<Rightarrow> (out0, Some e) | Inr landmarks \<Rightarrow>
        (case load_kml kml_file of Inl e \<Rightarrow> (out0, Some e) | Inr kml_polygons \<Rightarrow>
        (let out1 = out0 @ [SidebarTitle ''Coastal Landmarks'']
         in case py_iter landmarks of Inl e \<Rightarrow> (out1, Some e) | Inr ls \<Rightarrow>
           (case names_loop ls of Inl e \<Rightarrow> (out1, Some e) | Inr landmark_names \<Rightarrow>
           (let out2 = out1 @ [SidebarRadio ''Select a landmark'' landmark_names]
            in case select_view ls kml_polygons selected_name of
                 Inl e \<Rightarrow> (out2, Some e)
               | Inr v \<Rightarrow>
              (case polygon_loop ls kml_polygons selected_name
                      \<lparr>location = map_center v, zoom_start = zoom_level v,
                       fullscreen = True, layers = []\<rparr> of
                 Inl e \<Rightarrow> (out2, Some e)
               | Inr m \<Rightarrow>
              (let out3 = out2 @ [Title ''Coastal Vulnerability Assessment - Tacloban City'',
                                  Columns 2, Folium m]
               in case detail_panel selected_name v of
                    (evs, Some e) \<Rightarrow> (out3 @ evs, Some e)
                  | (evs, None) \<Rightarrow>
                 (let out4 = out3 @ evs @
                        [Markdown ''### Coastal Vulnerability Index (CVI) Interpretation'',
                         Markdown ''### Google Streetview Photos'']
                  in case gallery selected_name v of
                       (evs', Some e) \<Rightarrow> (out4 @ evs', Some e)
                     | (evs', None) \<Rightarrow>
                         (out4 @ evs' @ [Markdown ''---'',
                                         Markdown ''(c) 2026 James Bryan Francisco''],
                          None)))))))))"


section \<open>Notions of the specification\<close>


text \<open>The severity order of the buckets: red, orange, yellow, green, blue.\<close>

definition severity_rank :: "string \<Rightarrow> nat" where
  "severity_rank c =
     (if c = ''red'' then 0 else if c = ''orange'' then 1 else if c = ''yellow'' then 2
      else if c = ''green'' then 3 else 4)"


text \<open>
  The grid that the gallery draws: the images placed in column \<open>j\<close>, top to bottom, and the
  rows read across the three columns.
\<close>

fun image_in :: "nat \<Rightarrow> st_event \<Rightarrow> pyval option" where
  "image_in j (StImage c p cap) = (if c = j then Some p else None)"
| "image_in j _ = None"

definition column_images :: "nat \<Rightarrow> st_event list \<Rightarrow> pyval list" where
  "column_images j evs = List.map_filter (image_in j) evs"

definition grid_rows :: "st_event list \<Rightarrow> pyval list list" where
  "grid_rows evs = transpose (map (\<lambda>j. column_images j evs) [0, 1, 2])"


section \<open>Sample data\<close>

text \<open>
  A landmark record and a boundary file of the shape that \<^verbatim>\<open>landmarks.json\<close> and the KML
  file have, for the concrete instances below.
\<close>

definition sample_landmark :: "string \<Rightarrow> real \<Rightarrow> real \<Rightarrow> real \<Rightarrow> pyval list \<Rightarrow> pyval" where
  "sample_landmark name g n e imgs =
     PDict [(''name'', PStr name),
       (''geomorphology'', PDict [(''score'', PNum g), (''description'', PStr ''Low-lying coast'')]),
       (''natural_buffers'', PDict [(''score'', PNum n), (''description'', PStr ''Mangroves'')]),
       (''engineering_structures'', PDict [(''score'', PNum e), (''description'', PStr ''Seawall'')]),
       (''images'', PList imgs)]"

definition sample_placemark :: "string \<Rightarrow> string \<Rightarrow> xml" where
  "sample_placemark name ring =
     Element (kml_tag ''Placemark'') None
       [Element (kml_tag ''name'') (Some name) [],
        Element (kml_tag ''Polygon'') None
          [Element (kml_tag ''outerBoundaryIs'') None
            [Element (kml_tag ''LinearRing'') None
              [Element (kml_tag ''coordinates'') (Some ring) []]]]]"

definition sample_kml :: "xml list \<Rightarrow> xml" where
  "sample_kml placemarks =
     Element (kml_tag ''kml'') None [Element (kml_tag ''Document'') None placemarks]"


section \<open>Properties of the CVI logic\<close>






text \<open>
  Claim C2. \<open>get_color\<close> assigns the five buckets by closed upper bounds: an index up to 1
  is red, above 1 and up to 2 orange, above 2 and up to 3 yellow, above 3 and up to 4
  green, above 4 blue; a boundary value falls in the lower bucket.
\<close>

theorem get_color_buckets:
  "(cvi \<le> 1 \<longrightarrow> get_color cvi = ''red'')
   \<and> (1 < cvi \<and> cvi \<le> 2 \<longrightarrow> get_color cvi = ''orange'')
   \<and> (2 < cvi \<and> cvi \<le> 3 \<longrightarrow> get_color cvi = ''yellow'')
   \<and> (3 < cvi \<and> cvi \<le> 4 \<longrightarrow> get_color cvi = ''green'')
   \<and> (4 < cvi \<longrightarrow> get_color cvi = ''blue'')
   \<and> get_color 1.0 = ''red'' \<and> get_color 1.01 = ''orange'' \<and> get_color 2.0 = ''orange''
   \<and> get_color 3.0 = ''yellow'' \<and> get_color 4.0 = ''green'' \<and> get_color 4.01 = ''blue''"
  by (simp add: get_color_def)

theorem get_color_buckets_witness:
  "(0.5 :: real) \<le> 1 \<and> get_color 0.5 = ''red''
   \<and> (1 :: real) < 1.5 \<and> (1.5 :: real) \<le> 2 \<and> get_color 1.5 = ''orange''
   \<and> (2 :: real) < 2.5 \<and> (2.5 :: real) \<le> 3 \<and> get_color 2.5 = ''yellow''
   \<and> (3 :: real) < 3.5 \<and> (3.5 :: real) \<le> 4 \<and> get_color 3.5 = ''green''
   \<and> (4 :: real) < 4.5 \<and> get_color 4.5 = ''blue''"
  using get_color_buckets [of "0.5"] get_color_buckets [of "1.5"] get_color_buckets [of "2.5"]
    get_color_buckets [of "3.5"] get_color_buckets [of "4.5"]
  by simp

text \<open>
  Claim C10. \<open>get_color\<close> is total and monotone: every index gets one of the five colors,
  and a larger index never gets a bucket earlier in the order red, orange, yellow, green,
  blue.
\<close>

theorem get_color_total_monotone:
  "get_color i1 \<in> {''red'', ''orange'', ''yellow'', ''green'', ''blue''}
   \<and> (i1 \<le> i2 \<longrightarrow> severity_rank (get_color i1) \<le> severity_rank (get_color i2))"
  by (simp add: get_color_def severity_rank_def)

theorem get_color_total_monotone_witness:
  "(0.5::real) \<le> 3.5 \<and> severity_rank (get_color 0.5) = 0 \<and> severity_rank (get_color 3.5) = 3"
  using get_color_total_monotone [of "0.5" "3.5"]
  by (simp add: get_color_def severity_rank_def)


section \<open>Properties of the boundary loader\<close>



lemmas string_evals =
  split_ws_def split_on_def strip_def is_space_def py_float_def parse_mantissa_def
  parse_exponent_def is_digit_def digits_val_def

lemmas kml_evals =
  load_kml_def findall_desc_def find_child_def find_desc_def kml_tag_def string_evals






lemmas landmark_evals =
  sample_landmark_def compute_cvi_def score_of_def description_of_def bind_e_def
  py_add_def py_truediv_def py_round_def round_half_even_def py_eq_def

section \<open>Properties of the map\<close>







section \<open>Properties of the image showcase\<close>

lemma image_loop_map:
  "image_loop idx imgs cap
   = map (\<lambda>i. StImage ((idx + i) mod 3) (imgs ! i) cap) [0..<length imgs]"
proof (induction imgs arbitrary: idx)
  case Nil
  then show ?case by simp
next
  case (Cons x xs)
  have "map (\<lambda>i. StImage ((idx + i) mod 3) ((x # xs) ! i) cap) [0..<length (x # xs)]
      = StImage (idx mod 3) x cap
        # map (\<lambda>i. StImage ((idx + Suc i) mod 3) (xs ! i) cap) [0..<length xs]"
    by (simp add: map_upt_Suc del: upt_Suc)
  with Cons show ?case by simp
qed

lemma find_landmark_name:
  "find_landmark ls sel = Inr l \<Longrightarrow> \<exists>n. getitem l ''name'' = Inr n \<and> py_eq n sel"
proof (induction ls)
  case Nil
  then show ?case by simp
next
  case (Cons x xs)
  then show ?case
    by (cases "getitem x ''name''") (auto simp: bind_e_def split: if_splits)
qed

lemma grid_rows_four:
  "grid_rows (Columns 3 # image_loop 0 [a, b, c, d] cap) = [[a, b, c], [d]]"
  by (simp add: grid_rows_def column_images_def List.map_filter_def)

text \<open>
  Claim C8. For a selected landmark, the gallery shows the notice that no images are
  available when the record has no \<^verbatim>\<open>images\<close> entry or an empty list; otherwise it opens
  three columns and places image \<open>i\<close> of the list, in load order, in column \<open>i mod 3\<close> with
  the selected name as caption. Four images give the rows of three and of one. The selected
  name is the name of the record that the selection found.
\<close>

theorem gallery_three_columns:
  assumes "selected_name \<noteq> PNone" and "selected_landmark v = Some (PDict kv)"
  shows "(map_of (rev kv) ''images'' = None \<or> map_of (rev kv) ''images'' = Some (PList [])
      \<longrightarrow> gallery selected_name v = ([Warning ''No images available for this landmark.''], None))
   \<and> (map_of (rev kv) ''images'' = Some (PList imgs) \<and> imgs \<noteq> []
      \<longrightarrow> gallery selected_name v
          = (Columns 3 # map (\<lambda>i. StImage (i mod 3) (imgs ! i) selected_name) [0..<length imgs],
             None))
   \<and> (map_of (rev kv) ''images'' = Some (PList [a, b, c, d])
      \<longrightarrow> grid_rows (fst (gallery selected_name v)) = [[a, b, c], [d]])
   \<and> (find_landmark landmarks selected_name = Inr (PDict kv)
      \<longrightarrow> (\<exists>n. getitem (PDict kv) ''name'' = Inr n \<and> py_eq n selected_name))"
proof (intro conjI impI)
  assume "find_landmark landmarks selected_name = Inr (PDict kv)"
  then show "\<exists>n. getitem (PDict kv) ''name'' = Inr n \<and> py_eq n selected_name"
    by (rule find_landmark_name)
next
  assume "map_of (rev kv) ''images'' = None \<or> map_of (rev kv) ''images'' = Some (PList [])"
  with assms
  show "gallery selected_name v = ([Warning ''No images available for this landmark.''], None)"
    by (auto simp: gallery_def)
next
  assume "map_of (rev kv) ''images'' = Some (PList imgs) \<and> imgs \<noteq> []"
  with assms show "gallery selected_name v
      = (Columns 3 # map (\<lambda>i. StImage (i mod 3) (imgs ! i) selected_name) [0..<length imgs],
         None)"
    using image_loop_map [of 0 imgs selected_name] by (simp add: gallery_def)
next
  assume "map_of (rev kv) ''images'' = Some (PList [a, b, c, d])"
  with assms
  have "gallery selected_name v = (Columns 3 # image_loop 0 [a, b, c, d] selected_name, None)"
    by (simp add: gallery_def)
  then show "grid_rows (fst (gallery selected_name v)) = [[a, b, c], [d]]"
    by (simp only: fst_conv grid_rows_four)
qed

theorem gallery_three_columns_witness:
  "gallery (PStr ''Astrodome'')
      \<lparr>map_center = (11.3, 125.25), zoom_level = 15,
       selected_landmark = Some (sample_landmark ''Astrodome'' 4 3 5
          [PStr ''a.jpg'', PStr ''b.jpg'', PStr ''c.jpg'', PStr ''d.jpg'']),
       selected_cvi = Some 4, selected_color = Some ''green''\<rparr>
   = ([Columns 3, StImage 0 (PStr ''a.jpg'') (PStr ''Astrodome''),
       StImage 1 (PStr ''b.jpg'') (PStr ''Astrodome''),
       StImage 2 (PStr ''c.jpg'') (PStr ''Astrodome''),
       StImage 0 (PStr ''d.jpg'') (PStr ''Astrodome'')], None)
   \<and> grid_rows (fst (gallery (PStr ''Astrodome'')
      \<lparr>map_center = (11.3, 125.25), zoom_level = 15,
       selected_landmark = Some (sample_landmark ''Astrodome'' 4 3 5
          [PStr ''a.jpg'', PStr ''b.jpg'', PStr ''c.jpg'', PStr ''d.jpg'']),
       selected_cvi = Some 4, selected_color = Some ''green''\<rparr>))
     = [[PStr ''a.jpg'', PStr ''b.jpg'', PStr ''c.jpg''], [PStr ''d.jpg'']]
   \<and> gallery (PStr ''Astrodome'')
      \<lparr>map_center = (11.3, 125.25), zoom_level = 15,
       selected_landmark = Some (sample_landmark ''Astrodome'' 4 3 5 []),
       selected_cvi = Some 4, selected_color = Some ''green''\<rparr>
     = ([Warning ''No images available for this landmark.''], None)
   \<and> find_landmark [sample_landmark ''Astrodome'' 4 3 5 []] (PStr ''Astrodome'')
     = Inr (sample_landmark ''Astrodome'' 4 3 5 [])
   \<and> (\<exists>n. getitem (sample_landmark ''Astrodome'' 4 3 5 []) ''name'' = Inr n
          \<and> py_eq n (PStr ''Astrodome''))"
proof -
  let ?imgs = "[PStr ''a.jpg'', PStr ''b.jpg'', PStr ''c.jpg'', PStr ''d.jpg'']"
  let ?v = "\<lambda>imgs. \<lparr>map_center = (11.3 :: real, 125.25 :: real), zoom_level = 15,
       selected_landmark = Some (sample_landmark ''Astrodome'' 4 3 5 imgs),
       selected_cvi = Some 4, selected_color = Some ''green''\<rparr>"
  let ?kv = "\<lambda>imgs. [(''name'', PStr ''Astrodome''),
       (''geomorphology'', PDict [(''score'', PNum 4), (''description'', PStr ''Low-lying coast'')]),
       (''natural_buffers'', PDict [(''score'', PNum 3), (''description'', PStr ''Mangroves'')]),
       (''engineering_structures'', PDict [(''score'', PNum 5), (''description'', PStr ''Seawall'')]),
       (''images'', PList imgs)]"
  have sel: "PStr ''Astrodome'' \<noteq> PNone"
    by simp
  have l: "selected_landmark (?v imgs) = Some (PDict (?kv imgs))" for imgs
    by (simp add: sample_landmark_def)
  have look: "map_of (rev (?kv imgs)) ''images'' = Some (PList imgs)" for imgs
    by simp
  note four = gallery_three_columns [OF sel l, of ?imgs ?imgs "PStr ''a.jpg''" "PStr ''b.jpg''"
      "PStr ''c.jpg''" "PStr ''d.jpg''" "[PDict (?kv ?imgs)]"]
  note none = gallery_three_columns [OF sel l, of "[]" "[]" "PStr ''a.jpg''" "PStr ''b.jpg''"
      "PStr ''c.jpg''" "PStr ''d.jpg''" "[PDict (?kv [])]"]
  from four look [of ?imgs]
  have "gallery (PStr ''Astrodome'') (?v ?imgs)
      = (Columns 3 # map (\<lambda>i. StImage (i mod 3) (?imgs ! i) (PStr ''Astrodome''))
           [0..<length ?imgs], None)"
    by blast
  moreover have "map (\<lambda>i. StImage (i mod 3) (?imgs ! i) (PStr ''Astrodome'')) [0..<length ?imgs]
      = [StImage 0 (PStr ''a.jpg'') (PStr ''Astrodome''),
         StImage 1 (PStr ''b.jpg'') (PStr ''Astrodome''),
         StImage 2 (PStr ''c.jpg'') (PStr ''Astrodome''),
         StImage 0 (PStr ''d.jpg'') (PStr ''Astrodome'')]"
    by (simp add: upt_rec)
  moreover from four look [of ?imgs]
  have "grid_rows (fst (gallery (PStr ''Astrodome'') (?v ?imgs)))
      = [[PStr ''a.jpg'', PStr ''b.jpg'', PStr ''c.jpg''], [PStr ''d.jpg'']]"
    by blast
  moreover from none look [of "[]"]
  have "gallery (PStr ''Astrodome'') (?v [])
      = ([Warning ''No images available for this landmark.''], None)"
    by blast
  moreover have found: "find_landmark [sample_landmark ''Astrodome'' 4 3 5 []] (PStr ''Astrodome'')
      = Inr (sample_landmark ''Astrodome'' 4 3 5 [])"
    by (simp add: landmark_evals)
  moreover from none found
  have "\<exists>n. getitem (sample_landmark ''Astrodome'' 4 3 5 []) ''name'' = Inr n
          \<and> py_eq n (PStr ''Astrodome'')"
    by (simp add: sample_landmark_def)
  ultimately show ?thesis by simp
qed

section \<open>Properties of loading\<close>

lemma compute_cvi_missing_field:
  assumes "k \<in> {''geomorphology'', ''natural_buffers'', ''engineering_structures''}"
    and "getitem l k = Inl e"
  shows "\<exists>e'. compute_cvi l = Inl e'"
proof -
  from assms(2) have sc: "score_of l k = Inl e"
    by (simp add: score_of_def bind_e_def)
  from assms(1) consider "k = ''geomorphology''" | "k = ''natural_buffers''"
    | "k = ''engineering_structures''"
    by auto
  then show ?thesis
  proof cases
    case 1
    with sc show ?thesis by (simp add: compute_cvi_def bind_e_def)
  next
    case 2
    with sc show ?thesis by (simp add: compute_cvi_def bind_e_def split: sum.splits)
  next
    case 3
    with sc show ?thesis by (simp add: compute_cvi_def bind_e_def split: sum.splits)
  qed
qed

text \<open>
  Claim C5, as the source has it. Loading fails when the file is missing, when it is not
  well-formed JSON, when the document is not an object and when it has no \<^verbatim>\<open>landmarks\<close>
  entry; otherwise it returns the value of that entry as decoded, the records in their
  order. The records are not inspected: one that lacks a sub-assessment is loaded, and
  \<open>compute_cvi\<close> raises on it.
\<close>

theorem load_landmarks_contract:
  "load_landmarks Missing = Inl FileNotFoundError
   \<and> load_landmarks Malformed = Inl JSONDecodeError
   \<and> (map_of (rev kv) ''landmarks'' = Some v \<longrightarrow> load_landmarks (Parsed (PDict kv)) = Inr v)
   \<and> (map_of (rev kv') ''landmarks'' = None
       \<longrightarrow> load_landmarks (Parsed (PDict kv')) = Inl KeyError)
   \<and> ((\<forall>items. doc \<noteq> PDict items) \<longrightarrow> load_landmarks (Parsed doc) = Inl TypeError)
   \<and> (k \<in> {''geomorphology'', ''natural_buffers'', ''engineering_structures''}
       \<and> getitem l k = Inl KeyError \<longrightarrow> (\<exists>e. compute_cvi l = Inl e))"
  using compute_cvi_missing_field [of k l KeyError]
  by (cases doc) (simp_all add: load_landmarks_def)

theorem load_landmarks_contract_witness:
  "load_landmarks (Parsed (PDict [(''landmarks'',
       PList [sample_landmark ''Astrodome'' 4 3 5 [], sample_landmark ''Balyuan'' 1 1 2 []])]))
     = Inr (PList [sample_landmark ''Astrodome'' 4 3 5 [], sample_landmark ''Balyuan'' 1 1 2 []])
   \<and> load_landmarks (Parsed (PDict [(''places'', PList [])])) = Inl KeyError
   \<and> load_landmarks (Parsed (PList [])) = Inl TypeError
   \<and> getitem (PDict [(''name'', PStr ''Astrodome''),
         (''geomorphology'', PDict [(''score'', PNum 4), (''description'', PStr ''Low-lying coast'')])])
       ''natural_buffers'' = Inl KeyError
   \<and> (\<exists>e. compute_cvi (PDict [(''name'', PStr ''Astrodome''),
         (''geomorphology'', PDict [(''score'', PNum 4), (''description'', PStr ''Low-lying coast'')])])
       = Inl e)"
  using load_landmarks_contract [of
      "[(''landmarks'',
         PList [sample_landmark ''Astrodome'' 4 3 5 [], sample_landmark ''Balyuan'' 1 1 2 []])]"
      "PList [sample_landmark ''Astrodome'' 4 3 5 [], sample_landmark ''Balyuan'' 1 1 2 []]"
      "[(''places'', PList [])]" "PList []" "''natural_buffers''"
      "PDict [(''name'', PStr ''Astrodome''),
         (''geomorphology'', PDict [(''score'', PNum 4), (''description'', PStr ''Low-lying coast'')])]"]
  by simp

text \<open>
  Claim C5 as stated fails: a file whose only record has neither \<^verbatim>\<open>natural_buffers\<close> nor
  \<^verbatim>\<open>engineering_structures\<close> is loaded without error.
\<close>

theorem load_landmarks_missing_field_counterexample:
  "load_landmarks (Parsed (PDict [(''landmarks'', PList [PDict [(''name'', PStr ''Astrodome''),
       (''geomorphology'', PDict [(''score'', PNum 4), (''description'', PStr ''Low-lying coast'')])]])]))
     = Inr (PList [PDict [(''name'', PStr ''Astrodome''),
       (''geomorphology'', PDict [(''score'', PNum 4), (''description'', PStr ''Low-lying coast'')])]])
   \<and> getitem (PDict [(''name'', PStr ''Astrodome''),
       (''geomorphology'', PDict [(''score'', PNum 4), (''description'', PStr ''Low-lying coast'')])])
       ''natural_buffers'' = Inl KeyError
   \<and> getitem (PDict [(''name'', PStr ''Astrodome''),
       (''geomorphology'', PDict [(''score'', PNum 4), (''description'', PStr ''Low-lying coast'')])])
       ''engineering_structures'' = Inl KeyError"
  by (simp add: load_landmarks_def)

lemma polygon_loop_unmatched:
  assumes "l \<in> set ls" and "getitem l ''name'' = Inr n" and "lookup_polygon polys n = Inl e"
  shows "\<exists>e'. polygon_loop ls polys sel m = Inl e'"
  using assms(1)
proof (induction ls arbitrary: m)
  case Nil
  then show ?case by simp
next
  case (Cons x xs)
  show ?case
  proof (cases "x = l")
    case True
    with assms(2,3) show ?thesis
      by (simp add: bind_e_def split: sum.splits)
  next
    case False
    with Cons have "\<And>m. \<exists>e'. polygon_loop xs polys sel m = Inl e'"
      by simp
    then show ?thesis
      by (auto simp: bind_e_def split: sum.splits)
  qed
qed

text \<open>
  Claim C4, as the source has it. Loading does not compare the two stores. When both files
  load and some landmark's name has no entry in the boundary dictionary, the run ends with
  an exception after the page configuration and the sidebar title have been sent, and the
  map is never displayed.
\<close>

theorem unmatched_name_fails_in_map_loop:
  assumes "load_landmarks lf = Inr lms" and "py_iter lms = Inr ls" and "load_kml kf = Inr polys"
    and "l \<in> set ls" and "getitem l ''name'' = Inr n" and "lookup_polygon polys n = Inl e"
  shows "\<exists>evs e'. run lf kf selected_name = (evs, Some e')
     \<and> take 2 evs = [PageConfig ''Tacloban City CVA'', SidebarTitle ''Coastal Landmarks'']
     \<and> (\<forall>m. Folium m \<notin> set evs)"
proof -
  have pl: "\<And>m. \<exists>e'. polygon_loop ls polys selected_name m = Inl e'"
    using polygon_loop_unmatched [OF assms(4-6)] by blast
  show ?thesis
  proof (cases "names_loop ls")
    case (Inl e1)
    with assms(1-3) show ?thesis by (simp add: run_def)
  next
    case names: (Inr ns)
    show ?thesis
    proof (cases "select_view ls polys selected_name")
      case (Inl e2)
      with names assms(1-3) show ?thesis by (simp add: run_def)
    next
      case (Inr v)
      from pl obtain e3 where "polygon_loop ls polys selected_name
          \<lparr>location = map_center v, zoom_start = zoom_level v, fullscreen = True, layers = []\<rparr>
          = Inl e3"
        by blast
      with Inr names assms(1-3) show ?thesis by (simp add: run_def)
    qed
  qed
qed

theorem unmatched_name_fails_in_map_loop_witness:
  "load_landmarks (Parsed (PDict [(''landmarks'', PList [sample_landmark ''Astrodome'' 4 3 5 []])]))
     = Inr (PList [sample_landmark ''Astrodome'' 4 3 5 []])
   \<and> load_kml (Parsed (sample_kml [sample_placemark ''Balyuan'' ''125.0,11.2,0'']))
     = Inr [Some ''Balyuan'' \<mapsto> [(11.2, 125.0)]]
   \<and> lookup_polygon [Some ''Balyuan'' \<mapsto> [(11.2, 125.0)]] (PStr ''Astrodome'') = Inl KeyError
   \<and> (\<exists>evs e'.
        run (Parsed (PDict [(''landmarks'', PList [sample_landmark ''Astrodome'' 4 3 5 []])]))
          (Parsed (sample_kml [sample_placemark ''Balyuan'' ''125.0,11.2,0''])) (PStr ''Astrodome'')
          = (evs, Some e')
        \<and> take 2 evs = [PageConfig ''Tacloban City CVA'', SidebarTitle ''Coastal Landmarks'']
        \<and> (\<forall>m. Folium m \<notin> set evs))"
proof -
  let ?l = "sample_landmark ''Astrodome'' 4 3 5 []"
  let ?lf = "Parsed (PDict [(''landmarks'', PList [?l])])"
  let ?kf = "Parsed (sample_kml [sample_placemark ''Balyuan'' ''125.0,11.2,0''])"
  let ?polys = "[Some ''Balyuan'' \<mapsto> [(11.2, 125.0)]] :: polygons"
  have h1: "load_landmarks ?lf = Inr (PList [?l])"
    by (simp add: load_landmarks_def)
  have h2: "py_iter (PList [?l]) = Inr [?l]"
    by simp
  have h3: "load_kml ?kf = Inr ?polys"
    by (simp add: sample_kml_def sample_placemark_def kml_evals)
  have h4: "?l \<in> set [?l]"
    by simp
  have h5: "getitem ?l ''name'' = Inr (PStr ''Astrodome'')"
    by (simp add: sample_landmark_def)
  have h6: "lookup_polygon ?polys (PStr ''Astrodome'') = Inl KeyError"
    by simp
  from unmatched_name_fails_in_map_loop [OF h1 h2 h3 h4 h5 h6, of "PStr ''Astrodome''"] h1 h3 h6
  show ?thesis by blast
qed

text \<open>
  Claim C4 as stated fails: with a landmark named \<^verbatim>\<open>Astrodome\<close> and a boundary file that
  only has \<^verbatim>\<open>Balyuan\<close>, both files load, the sidebar with the list of names is sent, and
  only then the run ends, with \<^verbatim>\<open>KeyError\<close> from the loop that draws the polygons.
\<close>

theorem load_unmatched_name_counterexample:
  "load_landmarks (Parsed (PDict [(''landmarks'', PList [PDict [(''name'', PStr ''Astrodome''),
       (''geomorphology'', PDict [(''score'', PNum 4), (''description'', PStr ''Low-lying coast'')]),
       (''natural_buffers'', PDict [(''score'', PNum 3), (''description'', PStr ''Mangroves'')]),
       (''engineering_structures'', PDict [(''score'', PNum 5), (''description'', PStr ''Seawall'')])]])]))
     = Inr (PList [PDict [(''name'', PStr ''Astrodome''),
       (''geomorphology'', PDict [(''score'', PNum 4), (''description'', PStr ''Low-lying coast'')]),
       (''natural_buffers'', PDict [(''score'', PNum 3), (''description'', PStr ''Mangroves'')]),
       (''engineering_structures'', PDict [(''score'', PNum 5), (''description'', PStr ''Seawall'')])]])
   \<and> load_kml (Parsed (Element (kml_tag ''kml'') None
        [Element (kml_tag ''Placemark'') None
          [Element (kml_tag ''name'') (Some ''Balyuan'') [],
           Element (kml_tag ''coordinates'') (Some ''125.0,11.2,0'') []]]))
     = Inr [Some ''Balyuan'' \<mapsto> [(11.2, 125.0)]]
   \<and> run (Parsed (PDict [(''landmarks'', PList [PDict [(''name'', PStr ''Astrodome''),
       (''geomorphology'', PDict [(''score'', PNum 4), (''description'', PStr ''Low-lying coast'')]),
       (''natural_buffers'', PDict [(''score'', PNum 3), (''description'', PStr ''Mangroves'')]),
       (''engineering_structures'', PDict [(''score'', PNum 5), (''description'', PStr ''Seawall'')])]])]))
      (Parsed (Element (kml_tag ''kml'') None
        [Element (kml_tag ''Placemark'') None
          [Element (kml_tag ''name'') (Some ''Balyuan'') [],
           Element (kml_tag ''coordinates'') (Some ''125.0,11.2,0'') []]]))
      PNone
     = ([PageConfig ''Tacloban City CVA'', SidebarTitle ''Coastal Landmarks'',
         SidebarRadio ''Select a landmark'' [PStr ''Astrodome'']], Some KeyError)"
  by (simp add: run_def load_landmarks_def kml_evals select_view_def compute_cvi_def
      score_of_def bind_e_def py_add_def py_truediv_def)

end
